theory Spec2Isabelle
  imports Complex_Main "HOL-Library.AList"
begin

section \<open>JavaScript values\<close>

text \<open>
  The consensus decision system of \<^verbatim>\<open>index.js\<close> is embedded with explicit state
  passing. A JavaScript number is a finite double, represented by the rational it
  denotes; \<^verbatim>\<open>NaN\<close> and the infinities are outside the model, and the one place where the
  source divides by a number that can be zero is written out with the IEEE result.
  Comparisons of doubles are exact, so they are the comparisons of rationals. Sums and
  quotients of doubles are rounded by the language: they are the operations \<open>fadd\<close> and
  \<open>fdiv\<close> of a runtime, which every definition that adds or divides numbers takes as a
  parameter, so that nothing proved below depends on how they round. Counters that only
  grow by one are natural numbers. \<^verbatim>\<open>Date.now()\<close> is a parameter of every operation that
  reads the clock.
\<close>

type_synonym number = rat

text \<open>A vote is whatever value the caller passes: the validator decides on its shape.\<close>

datatype jsval =
    JUndefined
  | JNull
  | JBool bool
  | JNum number
  | JStr string
  | JArr "jsval list"
  | JObj

text \<open>What the program uses of the language: the conversion of a value to a property
  name (\<^verbatim>\<open>ToPropertyKey\<close>, applied when an object is indexed by a value), the rounded sum
  \<^verbatim>\<open>x + y\<close> and the rounded quotient \<^verbatim>\<open>x / y\<close> of two doubles.\<close>

record runtime =
  toPropertyKey :: "jsval \<Rightarrow> string"
  fadd :: "number \<Rightarrow> number \<Rightarrow> number"
  fdiv :: "number \<Rightarrow> number \<Rightarrow> number"

text \<open>\<^verbatim>\<open>Array.isArray(v)\<close>\<close>

fun isArray :: "jsval \<Rightarrow> bool" where
  "isArray (JArr xs) = True"
| "isArray v = False"

text \<open>\<^verbatim>\<open>typeof v === 'number'\<close>\<close>

fun isNumber :: "jsval \<Rightarrow> bool" where
  "isNumber (JNum n) = True"
| "isNumber v = False"

text \<open>\<^verbatim>\<open>Array.isArray(v) && v.includes(0)\<close>\<close>

fun includes0 :: "jsval \<Rightarrow> bool" where
  "includes0 (JArr xs) = (JNum 0 \<in> set xs)"
| "includes0 v = False"

text \<open>\<^verbatim>\<open>Array.isArray(vote) ? vote[0] : vote\<close>; reading index 0 of an empty array
  gives \<^verbatim>\<open>undefined\<close>.\<close>

fun voteIndex :: "jsval \<Rightarrow> jsval" where
  "voteIndex (JArr []) = JUndefined"
| "voteIndex (JArr (x # xs)) = x"
| "voteIndex v = v"

section \<open>Data model\<close>

record agent =
  agent_id :: string
  agent_name :: string
  role :: string
  weight :: number
  reputation :: int
  participatedDecisions :: nat
  agreedDecisions :: nat
  disagreedDecisions :: nat
  joinedAt :: number

datatype status = Voting | Accepted | Rejected | Expired

record vote_record =
  vote_value :: jsval
  vote_comment :: string
  timestamp :: number

record comment_record =
  c_agentId :: string
  c_agentName :: string
  c_comment :: string
  c_timestamp :: number

text \<open>A JavaScript \<^verbatim>\<open>Map\<close> is an association list in insertion order with distinct
  keys: \<^verbatim>\<open>set\<close> is \<^const>\<open>AList.update\<close> (overwrite in place, else append),
  \<^verbatim>\<open>get\<close> is \<^const>\<open>map_of\<close>, \<^verbatim>\<open>size\<close> is \<^const>\<open>length\<close>.
  Proposal ids \<^verbatim>\<open>prop_n\<close> and decision ids \<^verbatim>\<open>decision_n\<close> are represented by
  the number \<open>n\<close>.\<close>

record proposal =
  proposal_id :: nat
  title :: string
  description :: string
  options :: "string list"
  ptype :: string
  creator :: string
  status :: status
  createdAt :: number
  deadline :: number
  votes :: "(string \<times> vote_record) list"
  comments :: "comment_record list"
  requiredConsensus :: number

record breakdown_entry =
  b_agentId :: string
  b_agentName :: string
  b_vote :: jsval
  b_weight :: number

text \<open>The \<^verbatim>\<open>counts\<close> and \<^verbatim>\<open>weightedCounts\<close> objects map their own property names to
  values. A value is a number, or a string once a number has been added to something
  that is not a number; the text of such a string is not modelled.\<close>

datatype propval = PNum number | PString

record count_results =
  counts :: "string \<rightharpoonup> propval"
  weightedCounts :: "string \<rightharpoonup> propval"
  breakdown :: "breakdown_entry list"

record decision =
  decision_id :: nat
  d_proposalId :: nat
  d_title :: string
  d_description :: string
  d_result :: status
  d_results :: count_results
  participants :: "string list"
  decidedAt :: number
  consensusRatio :: number

record config =
  minAgents :: number
  voteDeadline :: number
  consensusThreshold :: number
  requireVeto :: bool

record system =
  agents :: "(string \<times> agent) list"
  proposals :: "(nat \<times> proposal) list"
  decisions :: "(nat \<times> decision) list"
  vote_log :: "((nat \<times> string) \<times> vote_record) list"
  consensusHistory :: "decision list"
  sys_config :: config
  proposalIdCounter :: nat
  decisionIdCounter :: nat

text \<open>Error results (\<^verbatim>\<open>{ success: false, error: ... }\<close>), named after the taxonomy of
  the specification; the source distinguishes them by their message.\<close>

datatype vote_error =
    InvalidOptionIndex
  | MultiNeedsArray
  | RankedNeedsArray
  | YesNoNeeded

datatype error =
    AgentNotFound
  | ProposalNotFound
  | ProposalNotVoting
  | ExpiredProposal
  | InvalidVoteShape vote_error

section \<open>Construction and registration\<close>

text \<open>The constructor's \<^verbatim>\<open>config.x || default\<close>: a missing or falsy field takes the
  default.\<close>

record config_in =
  in_minAgents :: "number option"
  in_voteDeadline :: "number option"
  in_consensusThreshold :: "number option"
  in_requireVeto :: "bool option"

definition num_or :: "number option \<Rightarrow> number \<Rightarrow> number" where
  "num_or x d = (case x of None \<Rightarrow> d | Some v \<Rightarrow> if v = 0 then d else v)"

definition bool_or :: "bool option \<Rightarrow> bool \<Rightarrow> bool" where
  "bool_or x d = (case x of None \<Rightarrow> d | Some v \<Rightarrow> if v then v else d)"

definition new_system :: "config_in \<Rightarrow> system" where
  "new_system c =
     \<lparr> agents = [], proposals = [], decisions = [], vote_log = [], consensusHistory = [],
       sys_config = \<lparr> minAgents = num_or (in_minAgents c) 2,
                      voteDeadline = num_or (in_voteDeadline c) 300000,
                      consensusThreshold = num_or (in_consensusThreshold c) (6 / 10),
                      requireVeto = bool_or (in_requireVeto c) False \<rparr>,
       proposalIdCounter = 1, decisionIdCounter = 1 \<rparr>"

definition default_config :: config_in where
  "default_config =
     \<lparr> in_minAgents = None, in_voteDeadline = None, in_consensusThreshold = None,
       in_requireVeto = None \<rparr>"

definition fresh_agent :: "string \<Rightarrow> string \<Rightarrow> string \<Rightarrow> number \<Rightarrow> number \<Rightarrow> agent" where
  "fresh_agent agentId agentName r w now =
     \<lparr> agent_id = agentId, agent_name = agentName, role = r, weight = w, reputation = 100,
       participatedDecisions = 0, agreedDecisions = 0, disagreedDecisions = 0,
       joinedAt = now \<rparr>"

text \<open>\<^verbatim>\<open>registerAgent\<close> has no failing branch; it returns the stored profile.\<close>

definition registerAgent ::
  "system \<Rightarrow> string \<Rightarrow> string \<Rightarrow> string \<Rightarrow> number \<Rightarrow> number \<Rightarrow> (error + agent) \<times> system" where
  "registerAgent s agentId agentName r w now =
     (let a = fresh_agent agentId agentName r w now
      in (Inr a, s\<lparr>agents := AList.update agentId a (agents s)\<rparr>))"

definition getAgentName :: "system \<Rightarrow> string \<Rightarrow> string" where
  "getAgentName s agentId =
     (case map_of (agents s) agentId of
        None \<Rightarrow> ''Unknown''
      | Some a \<Rightarrow> if agent_name a = [] then ''Unknown'' else agent_name a)"

section \<open>Proposals\<close>

text \<open>\<^verbatim>\<open>createProposal\<close> answers with a formatted view of the new proposal; the model
  returns the proposal itself. The deadline is the rounded sum of the clock and the
  configured duration; the creation time is taken from the same reading of the clock.\<close>

definition createProposal ::
  "runtime \<Rightarrow> system \<Rightarrow> string \<Rightarrow> string \<Rightarrow> string \<Rightarrow> string list \<Rightarrow> string \<Rightarrow> number
     \<Rightarrow> (error + proposal) \<times> system" where
  "createProposal J s agentId ttl descr opts ty now =
     (if map_of (agents s) agentId = None then (Inl AgentNotFound, s)
      else
        let proposalId = proposalIdCounter s;
            p = \<lparr> proposal_id = proposalId, title = ttl, description = descr, options = opts,
                  ptype = ty, creator = agentId, status = Voting, createdAt = now,
                  deadline = fadd J now (voteDeadline (sys_config s)), votes = [],
                  comments = [], requiredConsensus = consensusThreshold (sys_config s) \<rparr>
        in (Inr p, s\<lparr> proposalIdCounter := proposalId + 1,
                      proposals := AList.update proposalId p (proposals s) \<rparr>))"

definition addComment ::
  "system \<Rightarrow> string \<Rightarrow> nat \<Rightarrow> string \<Rightarrow> number \<Rightarrow> (error + string) \<times> system" where
  "addComment s agentId proposalId cmt now =
     (if map_of (agents s) agentId = None then (Inl AgentNotFound, s)
      else case map_of (proposals s) proposalId of
        None \<Rightarrow> (Inl ProposalNotFound, s)
      | Some p \<Rightarrow>
          let c = \<lparr> c_agentId = agentId, c_agentName = getAgentName s agentId,
                    c_comment = cmt, c_timestamp = now \<rparr>;
              p' = p\<lparr>comments := comments p @ [c]\<rparr>
          in (Inr cmt, s\<lparr>proposals := AList.update proposalId p' (proposals s)\<rparr>))"

section \<open>Vote validation\<close>

text \<open>The \<^verbatim>\<open>switch\<close> on the proposal type has no default case: a type outside the four
  falls through to \<^verbatim>\<open>{ valid: true }\<close>.\<close>

definition validateVote :: "proposal \<Rightarrow> jsval \<Rightarrow> vote_error + unit" where
  "validateVote p v =
     (if ptype p = ''single'' then
        (case v of
           JNum n \<Rightarrow>
             if n < 0 \<or> n \<ge> of_nat (length (options p)) then Inl InvalidOptionIndex
             else Inr ()
         | _ \<Rightarrow> Inr ())
      else if ptype p = ''multi'' then
        (if \<not> isArray v then Inl MultiNeedsArray else Inr ())
      else if ptype p = ''ranked'' then
        (if \<not> isArray v then Inl RankedNeedsArray else Inr ())
      else if ptype p = ''yesno'' then
        (if v \<noteq> JStr ''yes'' \<and> v \<noteq> JStr ''no'' \<and> v \<noteq> JBool True \<and> v \<noteq> JBool False
         then Inl YesNoNeeded else Inr ())
      else Inr ())"

section \<open>Consensus evaluation\<close>

text \<open>\<^verbatim>\<open>agent?.weight || 1.0\<close>: a missing agent and a falsy (zero) weight both give 1.\<close>

definition agent_weight :: "system \<Rightarrow> string \<Rightarrow> number" where
  "agent_weight s agentId =
     (case map_of (agents s) agentId of
        None \<Rightarrow> 1
      | Some a \<Rightarrow> if weight a = 0 then 1 else weight a)"

text \<open>\<^verbatim>\<open>vote === 'yes' || vote === true || vote === 0\<close> and its counterpart for no.\<close>

definition is_yes :: "jsval \<Rightarrow> bool" where
  "is_yes v = (v = JStr ''yes'' \<or> v = JBool True \<or> v = JNum 0)"

definition is_no :: "jsval \<Rightarrow> bool" where
  "is_no v = (v = JStr ''no'' \<or> v = JBool False \<or> v = JNum 1)"

record tally =
  yesVotes :: nat
  noVotes :: nat
  abstainVotes :: nat
  yesWeight :: number
  noWeight :: number
  abstainWeight :: number

definition tally0 :: tally where
  "tally0 = \<lparr> yesVotes = 0, noVotes = 0, abstainVotes = 0,
              yesWeight = 0, noWeight = 0, abstainWeight = 0 \<rparr>"

text \<open>The body of the loop over \<^verbatim>\<open>proposal.votes\<close> in \<^verbatim>\<open>checkConsensus\<close>; each
  \<^verbatim>\<open>+= weight\<close> is a rounded sum. A vote on a proposal of any other type (\<^verbatim>\<open>ranked\<close>
  included) enters no bucket.\<close>

definition tally_step ::
  "runtime \<Rightarrow> system \<Rightarrow> string \<Rightarrow> string \<times> vote_record \<Rightarrow> tally \<Rightarrow> tally" where
  "tally_step J s ty e t =
     (let w = agent_weight s (fst e); v = vote_value (snd e)
      in if ty = ''yesno'' \<or> ty = ''single'' then
           (if is_yes v then
              t\<lparr>yesVotes := yesVotes t + 1, yesWeight := fadd J (yesWeight t) w\<rparr>
            else if is_no v then
              t\<lparr>noVotes := noVotes t + 1, noWeight := fadd J (noWeight t) w\<rparr>
            else
              t\<lparr>abstainVotes := abstainVotes t + 1,
                abstainWeight := fadd J (abstainWeight t) w\<rparr>)
         else if ty = ''multi'' then
           (if includes0 v then
              t\<lparr>yesVotes := yesVotes t + 1, yesWeight := fadd J (yesWeight t) w\<rparr>
            else
              t\<lparr>noVotes := noVotes t + 1, noWeight := fadd J (noWeight t) w\<rparr>)
         else t)"

definition tally_votes :: "runtime \<Rightarrow> system \<Rightarrow> proposal \<Rightarrow> tally" where
  "tally_votes J s p = fold (tally_step J s (ptype p)) (votes p) tally0"

text \<open>\<^verbatim>\<open>yesRatio >= proposal.requiredConsensus\<close> with
  \<^verbatim>\<open>yesRatio = totalWeight > 0 ? yesWeight / (totalAgents * 1.0) : 0\<close>. The product
  \<^verbatim>\<open>totalAgents * 1.0\<close> is the size itself; the quotient is rounded. With an empty
  registry the quotient is \<^verbatim>\<open>Infinity\<close>, \<^verbatim>\<open>NaN\<close> or \<^verbatim>\<open>-Infinity\<close>, and only the first
  passes the comparison.\<close>

definition ratio_reached :: "runtime \<Rightarrow> number \<Rightarrow> number \<Rightarrow> nat \<Rightarrow> number \<Rightarrow> bool" where
  "ratio_reached J yw tw n T =
     (if tw > 0 then (if n = 0 then yw > 0 else fdiv J yw (of_nat n) \<ge> T) else 0 \<ge> T)"

text \<open>The returned status object, without its two formatted strings.\<close>

record consensus_stats =
  totalVotes :: nat
  totalAgents :: nat
  st_yesVotes :: nat
  st_noVotes :: nat
  st_abstainVotes :: nat
  st_yesWeight :: number
  st_noWeight :: number
  reached :: bool

datatype consensus_report = InsufficientVotes | Stats consensus_stats

section \<open>Counting votes\<close>

text \<open>The \<^verbatim>\<open>counts\<close> objects are object literals, so they inherit the members of
  \<^verbatim>\<open>Object.prototype\<close>: reading one of these names on an object that has no own
  property of that name gives the inherited member, not \<^verbatim>\<open>undefined\<close>.\<close>

definition object_prototype_names :: "string list" where
  "object_prototype_names =
     [''constructor'', ''__defineGetter__'', ''__defineSetter__'', ''hasOwnProperty'',
      ''__lookupGetter__'', ''__lookupSetter__'', ''isPrototypeOf'',
      ''propertyIsEnumerable'', ''toString'', ''valueOf'', ''__proto__'',
      ''toLocaleString'']"

text \<open>\<^verbatim>\<open>obj[k] = v\<close> for a number or a string \<open>v\<close>: it creates or overwrites the own
  property, except that the inherited setter of \<^verbatim>\<open>__proto__\<close> ignores such a value.\<close>

definition assign ::
  "(string \<rightharpoonup> propval) \<Rightarrow> string \<Rightarrow> propval \<Rightarrow> (string \<rightharpoonup> propval)" where
  "assign m k v = (if k = ''__proto__'' then m else m(k \<mapsto> v))"

text \<open>\<^verbatim>\<open>obj[k] = (obj[k] || 0) + d\<close>. An own number that is zero is falsy and replaced by
  0; an own string is truthy, and a string plus a number is a string; without an own
  property an inherited member is read, which is truthy and not a number, so that the
  sum is a string; otherwise \<^verbatim>\<open>undefined\<close> is read and the sum is \<^verbatim>\<open>0 + d\<close>.\<close>

definition bump ::
  "runtime \<Rightarrow> (string \<rightharpoonup> propval) \<Rightarrow> string \<Rightarrow> number \<Rightarrow> (string \<rightharpoonup> propval)" where
  "bump J m k d =
     (case m k of
        Some (PNum x) \<Rightarrow> assign m k (PNum (fadd J (if x = 0 then 0 else x) d))
      | Some PString \<Rightarrow> assign m k PString
      | None \<Rightarrow>
          if k \<in> set object_prototype_names then assign m k PString
          else assign m k (PNum (fadd J 0 d)))"

text \<open>\<^verbatim>\<open>obj.yes++\<close> and \<^verbatim>\<open>obj.yes += w\<close>: these are only applied to the three properties
  that the initialisation for \<^verbatim>\<open>yesno\<close> has set to 0, which then hold numbers.\<close>

definition add_to ::
  "runtime \<Rightarrow> (string \<rightharpoonup> propval) \<Rightarrow> string \<Rightarrow> number \<Rightarrow> (string \<rightharpoonup> propval)" where
  "add_to J m k d = (case m k of Some (PNum x) \<Rightarrow> m(k \<mapsto> PNum (fadd J x d)) | _ \<Rightarrow> m)"

definition empty_results :: count_results where
  "empty_results = \<lparr> counts = Map.empty, weightedCounts = Map.empty, breakdown = [] \<rparr>"

definition count_init :: "runtime \<Rightarrow> proposal \<Rightarrow> count_results" where
  "count_init J p =
     (if ptype p = ''yesno'' then
        \<lparr> counts = [''yes'' \<mapsto> PNum 0, ''no'' \<mapsto> PNum 0, ''abstain'' \<mapsto> PNum 0],
          weightedCounts = [''yes'' \<mapsto> PNum 0, ''no'' \<mapsto> PNum 0, ''abstain'' \<mapsto> PNum 0],
          breakdown = [] \<rparr>
      else if length (options p) > 0 then
        fold (\<lambda>i r. r\<lparr> counts := assign (counts r) (toPropertyKey J (JNum (of_nat i))) (PNum 0),
                       weightedCounts :=
                         assign (weightedCounts r) (toPropertyKey J (JNum (of_nat i))) (PNum 0) \<rparr>)
             [0 ..< length (options p)] empty_results
      else empty_results)"

definition count_step ::
  "runtime \<Rightarrow> system \<Rightarrow> string \<Rightarrow> string \<times> vote_record \<Rightarrow> count_results \<Rightarrow> count_results" where
  "count_step J s ty e r =
     (let agentId = fst e;
          w = agent_weight s agentId;
          v = vote_value (snd e);
          breakdownEntry = \<lparr> b_agentId = agentId, b_agentName = getAgentName s agentId,
                             b_vote = v, b_weight = w \<rparr>;
          r1 = (if ty = ''yesno'' then
                  (if v = JStr ''yes'' \<or> v = JBool True then
                     r\<lparr> counts := add_to J (counts r) ''yes'' 1,
                        weightedCounts := add_to J (weightedCounts r) ''yes'' w \<rparr>
                   else if v = JStr ''no'' \<or> v = JBool False then
                     r\<lparr> counts := add_to J (counts r) ''no'' 1,
                        weightedCounts := add_to J (weightedCounts r) ''no'' w \<rparr>
                   else
                     r\<lparr> counts := add_to J (counts r) ''abstain'' 1,
                        weightedCounts := add_to J (weightedCounts r) ''abstain'' w \<rparr>)
                else if ty = ''single'' \<or> ty = ''multi'' then
                  r\<lparr> counts := bump J (counts r) (toPropertyKey J (voteIndex v)) 1,
                     weightedCounts :=
                       bump J (weightedCounts r) (toPropertyKey J (voteIndex v)) w \<rparr>
                else r)
      in r1\<lparr>breakdown := breakdown r1 @ [breakdownEntry]\<rparr>)"

definition countVotes :: "runtime \<Rightarrow> system \<Rightarrow> proposal \<Rightarrow> count_results" where
  "countVotes J s p = fold (count_step J s (ptype p)) (votes p) (count_init J p)"

definition calculateConsensusRatio :: "runtime \<Rightarrow> proposal \<Rightarrow> number" where
  "calculateConsensusRatio J p =
     (let yes = fold (\<lambda>e n. if (ptype p = ''yesno'' \<or> ptype p = ''single'')
                                 \<and> is_yes (vote_value (snd e)) then n + 1 else n)
                     (votes p) (0::nat);
          total = length (votes p)
      in if total > 0 then fdiv J (of_nat yes) (of_nat total) else 0)"

section \<open>Finalization\<close>

text \<open>The statistics update of one voter; an agent missing from the registry is skipped
  by \<^const>\<open>AList.map_entry\<close>.\<close>

definition credit :: "string \<Rightarrow> jsval \<Rightarrow> agent \<Rightarrow> agent" where
  "credit ty v a =
     (let a1 = a\<lparr>participatedDecisions := participatedDecisions a + 1\<rparr>
      in if ty = ''yesno'' \<or> ty = ''single'' then
           (if is_yes v then a1\<lparr>agreedDecisions := agreedDecisions a1 + 1\<rparr>
            else a1\<lparr>disagreedDecisions := disagreedDecisions a1 + 1\<rparr>)
         else a1)"

definition credit_step ::
  "string \<Rightarrow> string \<times> vote_record \<Rightarrow> (string \<times> agent) list \<Rightarrow> (string \<times> agent) list" where
  "credit_step ty e ags = AList.map_entry (fst e) (credit ty (vote_value (snd e))) ags"

definition finalizeDecision ::
  "runtime \<Rightarrow> system \<Rightarrow> proposal \<Rightarrow> number \<Rightarrow> decision \<times> system" where
  "finalizeDecision J s p now =
     (let decisionId = decisionIdCounter s;
          d = \<lparr> decision_id = decisionId, d_proposalId = proposal_id p, d_title = title p,
                d_description = description p, d_result = status p,
                d_results = countVotes J s p, participants = map fst (votes p),
                decidedAt = now, consensusRatio = calculateConsensusRatio J p \<rparr>
      in (d, s\<lparr> decisionIdCounter := decisionId + 1,
                 decisions := AList.update decisionId d (decisions s),
                 agents := fold (credit_step (ptype p)) (votes p) (agents s),
                 consensusHistory := consensusHistory s @ [d] \<rparr>))"

text \<open>\<^verbatim>\<open>checkConsensus(proposal)\<close> mutates the proposal object it is given and the
  system; it returns the report, the proposal as mutated and the new system. No status
  is tested on entry. \<open>now\<close> is the clock at its deadline test; the decision is stamped
  with the same reading.\<close>

definition checkConsensus ::
  "runtime \<Rightarrow> system \<Rightarrow> proposal \<Rightarrow> number \<Rightarrow> consensus_report \<times> proposal \<times> system" where
  "checkConsensus J s p now =
     (let tv = length (votes p); ta = length (agents s)
      in if of_nat tv < minAgents (sys_config s) then (InsufficientVotes, p, s)
         else
           let t = tally_votes J s p;
               totalWeight = fadd J (fadd J (yesWeight t) (noWeight t)) (abstainWeight t);
               st = \<lparr> totalVotes = tv, totalAgents = ta, st_yesVotes = yesVotes t,
                      st_noVotes = noVotes t, st_abstainVotes = abstainVotes t,
                      st_yesWeight = yesWeight t, st_noWeight = noWeight t,
                      reached = ratio_reached J (yesWeight t) totalWeight ta
                                  (requiredConsensus p) \<rparr>
           in if reached st then
                (let p' = p\<lparr>status := Accepted\<rparr>
                 in (Stats st, p', snd (finalizeDecision J s p' now)))
              else if now > deadline p then
                (let p' = p\<lparr>status := Rejected\<rparr>
                 in (Stats st, p', snd (finalizeDecision J s p' now)))
              else (Stats st, p, s))"

section \<open>Voting\<close>

text \<open>The proposal object lives in the \<^verbatim>\<open>proposals\<close> map and is mutated in place: the
  model writes the mutated proposal back under its id. \<open>t_submit\<close> is the clock at the
  deadline test of \<^verbatim>\<open>vote\<close>, \<open>t_eval\<close> the clock inside \<^verbatim>\<open>checkConsensus\<close>. The
  timestamps stored with the vote are read from the clock in between; the model stores
  \<open>t_submit\<close>, and no test depends on them.\<close>

definition vote ::
  "runtime \<Rightarrow> system \<Rightarrow> string \<Rightarrow> nat \<Rightarrow> jsval \<Rightarrow> string \<Rightarrow> number \<Rightarrow> number
     \<Rightarrow> (error + consensus_report) \<times> system" where
  "vote J s agentId proposalId v cmt t_submit t_eval =
     (if map_of (agents s) agentId = None then (Inl AgentNotFound, s)
      else case map_of (proposals s) proposalId of
        None \<Rightarrow> (Inl ProposalNotFound, s)
      | Some p \<Rightarrow>
          if status p \<noteq> Voting then (Inl ProposalNotVoting, s)
          else if t_submit > deadline p then
            (Inl ExpiredProposal,
             s\<lparr>proposals := AList.update proposalId (p\<lparr>status := Expired\<rparr>) (proposals s)\<rparr>)
          else
            (case validateVote p v of
               Inl e \<Rightarrow> (Inl (InvalidVoteShape e), s)
             | Inr u \<Rightarrow>
                 let vr = \<lparr> vote_value = v, vote_comment = cmt, timestamp = t_submit \<rparr>;
                     p1 = p\<lparr>votes := AList.update agentId vr (votes p)\<rparr>;
                     s1 = s\<lparr>vote_log := AList.update (proposalId, agentId) vr (vote_log s)\<rparr>;
                     (result, p2, s2) = checkConsensus J s1 p1 t_eval
                 in (Inr result,
                     s2\<lparr>proposals := AList.update proposalId p2 (proposals s2)\<rparr>)))"

text \<open>\<^verbatim>\<open>AIConsensusStrategy.getVoteSuggestion\<close> re-evaluates consensus on the stored
  proposal, whatever its status; of its advisory answer only the report is kept.\<close>

definition getVoteSuggestion ::
  "runtime \<Rightarrow> system \<Rightarrow> nat \<Rightarrow> number \<Rightarrow> (error + consensus_report) \<times> system" where
  "getVoteSuggestion J s proposalId now =
     (case map_of (proposals s) proposalId of
        None \<Rightarrow> (Inl ProposalNotFound, s)
      | Some p \<Rightarrow>
          let (stats, p', s') = checkConsensus J s p now
          in (Inr stats, s'\<lparr>proposals := AList.update proposalId p' (proposals s')\<rparr>))"

section \<open>The tallies as the specification states them, and as amended\<close>

text \<open>Weight of a vote in the words of the specification: the voting agent's registered
  weight, or 1 if the agent cannot be found.\<close>

definition spec_weight :: "system \<Rightarrow> string \<Rightarrow> number" where
  "spec_weight s agentId =
     (case map_of (agents s) agentId of None \<Rightarrow> 1 | Some a \<Rightarrow> weight a)"

text \<open>The weight a vote counts with: the registered weight of the voter, except that a
  voter who is not in the registry, or whose registered weight is zero, counts with
  weight 1.\<close>

definition effective_weight :: "system \<Rightarrow> string \<Rightarrow> number" where
  "effective_weight s agentId =
     (case map_of (agents s) agentId of
        Some a \<Rightarrow> (if weight a \<noteq> 0 then weight a else 1)
      | None \<Rightarrow> 1)"

datatype bucket = Yes | No | Abstain

text \<open>The bucketing rule of the consensus evaluator as the specification words it.\<close>

definition spec_bucket :: "string \<Rightarrow> jsval \<Rightarrow> bucket option" where
  "spec_bucket ty v =
     (if ty = ''yesno'' \<or> ty = ''single'' then
        Some (if v \<in> {JStr ''yes'', JBool True, JNum 0} then Yes
              else if v \<in> {JStr ''no'', JBool False, JNum 1} then No
              else Abstain)
      else if ty = ''multi'' then
        Some (case v of JArr xs \<Rightarrow> (if JNum 0 \<in> set xs then Yes else No) | _ \<Rightarrow> No)
      else None)"

definition votes_in :: "string \<Rightarrow> bucket \<Rightarrow> (string \<times> vote_record) list
    \<Rightarrow> (string \<times> vote_record) list" where
  "votes_in ty b vs = filter (\<lambda>e. spec_bucket ty (vote_value (snd e)) = Some b) vs"

text \<open>The sum of a sequence of weights as the program forms it: from 0, adding the
  weights one by one in order, each sum rounded.\<close>

definition float_sum :: "runtime \<Rightarrow> number list \<Rightarrow> number" where
  "float_sum J ws = foldl (fadd J) 0 ws"

text \<open>The weight of a bucket of the evaluator: as the specification states it, the
  exact sum of the registered weights of its voters; and as amended, the rounded sum of
  their effective weights in the order of the votes.\<close>

definition registered_weight_in ::
  "system \<Rightarrow> string \<Rightarrow> bucket \<Rightarrow> (string \<times> vote_record) list \<Rightarrow> number" where
  "registered_weight_in s ty b vs =
     sum_list (map (\<lambda>e. spec_weight s (fst e)) (votes_in ty b vs))"

definition weight_in ::
  "runtime \<Rightarrow> system \<Rightarrow> string \<Rightarrow> bucket \<Rightarrow> (string \<times> vote_record) list \<Rightarrow> number" where
  "weight_in J s ty b vs =
     float_sum J (map (\<lambda>e. effective_weight s (fst e)) (votes_in ty b vs))"

text \<open>The acceptance test, as amended, on the weights \<open>y\<close>, \<open>n\<close> and \<open>a\<close> of the
  three buckets, the size \<open>k\<close> of the registry and the threshold \<open>T\<close>: when the total
  weight is positive, the quotient of the yes weight by the registry size is at least
  \<open>T\<close> (with an empty registry: the yes weight is positive); when the total weight is
  not positive, the ratio counts as 0.\<close>

definition amended_accept ::
  "runtime \<Rightarrow> number \<Rightarrow> number \<Rightarrow> number \<Rightarrow> nat \<Rightarrow> number \<Rightarrow> bool" where
  "amended_accept J y n a k T =
     (if 0 < fadd J (fadd J y n) a
      then (if k = 0 then 0 < y else T \<le> fdiv J y (of_nat k))
      else T \<le> 0)"









section \<open>Reachable states\<close>

text \<open>The states the public operations produce from a freshly constructed system.
  Consensus evaluation on a stored proposal is \<^const>\<open>getVoteSuggestion\<close>; the last rule is
  a direct call of \<^verbatim>\<open>finalizeDecision\<close> on a stored proposal.\<close>

inductive reachable :: "runtime \<Rightarrow> system \<Rightarrow> bool" for J :: runtime where
  r_new: "reachable J (new_system c)"
| r_register: "reachable J s \<Longrightarrow> reachable J (snd (registerAgent s agentId agentName r w now))"
| r_create: "reachable J s \<Longrightarrow> reachable J (snd (createProposal J s agentId ttl descr opts ty now))"
| r_comment: "reachable J s \<Longrightarrow> reachable J (snd (addComment s agentId proposalId cmt now))"
| r_vote: "reachable J s \<Longrightarrow> reachable J (snd (vote J s agentId proposalId v cmt t_submit t_eval))"
| r_suggest: "reachable J s \<Longrightarrow> reachable J (snd (getVoteSuggestion J s proposalId now))"
| r_finalize: "reachable J s \<Longrightarrow> map_of (proposals s) proposalId = Some p
    \<Longrightarrow> reachable J (snd (finalizeDecision J s p now))"

definition votes_within_registry :: "system \<Rightarrow> bool" where
  "votes_within_registry s =
     list_all (\<lambda>e. length (votes (snd e)) \<le> length (agents s)) (proposals s)"

text \<open>The invariant behind the bound: agent ids are distinct, and every proposal's
  voters are distinct and registered.\<close>

definition registry_inv :: "system \<Rightarrow> bool" where
  "registry_inv s =
     (distinct (map fst (agents s))
      \<and> (\<forall>e \<in> set (proposals s).
            distinct (map fst (votes (snd e)))
            \<and> fst ` set (votes (snd e)) \<subseteq> fst ` set (agents s)))"

section \<open>Example systems\<close>

text \<open>A property-name conversion for the examples: it agrees with the language on
  strings, booleans, \<^verbatim>\<open>undefined\<close>, \<^verbatim>\<open>null\<close>, plain objects and the numbers 0 to 3,
  which is all the examples index with.\<close>

definition key_of :: "jsval \<Rightarrow> string" where
  "key_of v =
     (case v of
        JStr x \<Rightarrow> x
      | JBool b \<Rightarrow> (if b then ''true'' else ''false'')
      | JUndefined \<Rightarrow> ''undefined''
      | JNull \<Rightarrow> ''null''
      | JObj \<Rightarrow> ''[object Object]''
      | JNum n \<Rightarrow> (if n = 0 then ''0'' else if n = 1 then ''1'' else if n = 2 then ''2''
                   else if n = 3 then ''3'' else ''number'')
      | JArr xs \<Rightarrow> ''array'')"

text \<open>The runtime of the examples adds and divides exactly. The weights of the examples
  are 0, 1, 1.5, 5 and -10, whose sums are doubles, so that the rounded sums are the exact
  ones; their quotients are only compared with the threshold 0.6, from which they differ
  by more than any rounding.\<close>

definition example_runtime :: runtime where
  "example_runtime = \<lparr> toPropertyKey = key_of, fadd = (\<lambda>x y. x + y), fdiv = (\<lambda>x y. x / y) \<rparr>"

definition example_proposal :: "string \<Rightarrow> string list \<Rightarrow> proposal" where
  "example_proposal ty opts =
     \<lparr> proposal_id = 1, title = ''t'', description = ''d'', options = opts, ptype = ty,
       creator = ''a'', status = Voting, createdAt = 0, deadline = 300000, votes = [],
       comments = [], requiredConsensus = 6 / 10 \<rparr>"

definition cast :: "jsval \<Rightarrow> vote_record" where
  "cast v = \<lparr> vote_value = v, vote_comment = [], timestamp = 1 \<rparr>"

text \<open>Three agents \<open>a\<close> (weight 1), \<open>b\<close> (weight 1.5) and \<open>c\<close> (weight 1) under the default
  configuration: threshold 0.6, at least 2 votes, deadline after 300000 ms.\<close>

definition three_agents :: system where
  "three_agents =
     snd (registerAgent
       (snd (registerAgent
         (snd (registerAgent (new_system default_config) ''a'' ''A'' ''member'' 1 0))
         ''b'' ''B'' ''member'' (3 / 2) 0))
       ''c'' ''C'' ''observer'' 1 0)"

definition with_proposal :: "string \<Rightarrow> string list \<Rightarrow> system" where
  "with_proposal ty opts =
     snd (createProposal example_runtime three_agents ''a'' ''t'' ''d'' opts ty 0)"

text \<open>Two registries the data model of the specification does not foresee and
  \<^verbatim>\<open>registerAgent\<close> accepts: \<open>a\<close> and \<open>b\<close> with weight 0 beside \<open>c\<close> with weight 1; and \<open>a\<close>
  with weight 5 beside \<open>b\<close> with weight -10.\<close>

definition zero_weight_agents :: system where
  "zero_weight_agents =
     snd (registerAgent
       (snd (registerAgent
         (snd (registerAgent (new_system default_config) ''a'' ''A'' ''member'' 0 0))
         ''b'' ''B'' ''member'' 0 0))
       ''c'' ''C'' ''member'' 1 0)"

definition opposed_agents :: system where
  "opposed_agents =
     snd (registerAgent
       (snd (registerAgent (new_system default_config) ''a'' ''A'' ''member'' 5 0))
       ''b'' ''B'' ''member'' (- 10) 0)"

text \<open>Proposals with votes already recorded, for the tallies.\<close>

definition two_yes :: proposal where
  "two_yes = (example_proposal ''yesno'' [])
               \<lparr>votes := [(''a'', cast (JStr ''yes'')), (''b'', cast (JBool True))]\<rparr>"

definition one_yes :: proposal where
  "one_yes = (example_proposal ''yesno'' []) \<lparr>votes := [(''a'', cast (JStr ''yes''))]\<rparr>"

definition yes_and_no :: proposal where
  "yes_and_no = (example_proposal ''yesno'' [])
                  \<lparr>votes := [(''a'', cast (JStr ''yes'')), (''b'', cast (JStr ''no''))]\<rparr>"

definition mixed_single :: proposal where
  "mixed_single = (example_proposal ''single'' [''x'', ''y'', ''z''])
       \<lparr>votes := [(''a'', cast (JNum 0)), (''b'', cast (JNum 1)), (''c'', cast (JNum 0)),
                  (''ghost'', cast (JNum 1)), (''late'', cast (JStr ''z''))]\<rparr>"


definition named_single :: proposal where
  "named_single = (example_proposal ''single'' [''x'', ''y'', ''z''])
       \<lparr>votes := [(''a'', cast (JStr ''toString'')), (''b'', cast (JStr ''__proto__'')),
                  (''c'', cast (JStr ''toString''))]\<rparr>"

text \<open>The run of the README: a \<^verbatim>\<open>single\<close> proposal with three options, on which the
  three agents vote 0, 1 and 0; the third vote reaches the threshold.\<close>

definition accepted_once :: system where
  "accepted_once =
     snd (vote example_runtime
       (snd (vote example_runtime
         (snd (vote example_runtime (with_proposal ''single'' [''x'', ''y'', ''z''])
                ''a'' 1 (JNum 0) [] 1 1))
         ''b'' 1 (JNum 1) [] 2 2))
       ''c'' 1 (JNum 0) [] 3 3)"

text \<open>The README then calls \<^verbatim>\<open>checkConsensus\<close> on the stored proposal, as
  \<^verbatim>\<open>getVoteSuggestion\<close> does.\<close>

definition re_evaluated :: system where
  "re_evaluated = snd (getVoteSuggestion example_runtime accepted_once 1 4)"

definition grown_registry :: system where
  "grown_registry =
     snd (registerAgent (snd (registerAgent accepted_once ''d'' ''D'' ''member'' 1 5))
            ''e'' ''E'' ''member'' 1 6)"

definition re_evaluated_late :: system where
  "re_evaluated_late = snd (getVoteSuggestion example_runtime grown_registry 1 300001)"

section \<open>Registration\<close>

text \<open>
  C10. \<^verbatim>\<open>registerAgent\<close> succeeds on every input and has no duplicate-agent error:
  whatever the registry held under the id before, it afterwards holds a fresh profile
  with reputation 100 and the three decision counters at zero.
\<close>

theorem registerAgent_overwrites:
  "fst (registerAgent s agentId agentName r w now) = Inr (fresh_agent agentId agentName r w now)
   \<and> map_of (agents (snd (registerAgent s agentId agentName r w now))) agentId
       = Some (fresh_agent agentId agentName r w now)
   \<and> weight (fresh_agent agentId agentName r w now) = w
   \<and> reputation (fresh_agent agentId agentName r w now) = 100
   \<and> participatedDecisions (fresh_agent agentId agentName r w now) = 0
   \<and> agreedDecisions (fresh_agent agentId agentName r w now) = 0
   \<and> disagreedDecisions (fresh_agent agentId agentName r w now) = 0"
  by (simp add: registerAgent_def fresh_agent_def Let_def update_conv')

section \<open>Vote validation\<close>

text \<open>
  C6, as stated: a proposal of a type outside \<^verbatim>\<open>single\<close>, \<^verbatim>\<open>multi\<close>, \<^verbatim>\<open>ranked\<close>,
  \<^verbatim>\<open>yesno\<close> makes validation fail. The validator instead reports the vote valid: here
  the vote 7 on a proposal of type \<^verbatim>\<open>approval\<close>.
\<close>

theorem validateVote_unknown_type_counterexample:
  "ptype (example_proposal ''approval'' [''x'', ''y''])
     \<notin> {''single'', ''multi'', ''ranked'', ''yesno''}
   \<and> validateVote (example_proposal ''approval'' [''x'', ''y'']) (JNum 7) = Inr ()"
  by (simp add: validateVote_def example_proposal_def)

text \<open>
  C6, amended: for a proposal whose type is none of the four, the validator reports every
  candidate vote valid.
\<close>

theorem validateVote_unknown_type_valid:
  "ptype p \<notin> {''single'', ''multi'', ''ranked'', ''yesno''} \<Longrightarrow> validateVote p v = Inr ()"
  by (simp add: validateVote_def)

theorem validateVote_unknown_type_valid_witness:
  "ptype (example_proposal ''approval'' []) \<notin> {''single'', ''multi'', ''ranked'', ''yesno''}
   \<and> validateVote (example_proposal ''approval'' []) JNull = Inr ()"
  using validateVote_unknown_type_valid [of "example_proposal ''approval'' []" JNull]
  by (simp add: example_proposal_def)

text \<open>A vote call that returns an error leaves the votes of every proposal as they were.\<close>

lemma vote_error_keeps_votes:
  assumes "fst (vote J s agentId proposalId v cmt t1 t2) = Inl e"
  shows "map_option votes (map_of (proposals (snd (vote J s agentId proposalId v cmt t1 t2))) q)
         = map_option votes (map_of (proposals s) q)"
  using assms
  by (auto simp: vote_def update_conv' Let_def
           split: option.splits if_splits sum.splits prod.splits)

lemma single_out_of_range_error:
  assumes "map_of (proposals s) proposalId = Some p" and "ptype p = ''single''"
    and "n < 0 \<or> n \<ge> of_nat (length (options p))"
  shows "\<exists>e. fst (vote J s agentId proposalId (JNum n) cmt t1 t2) = Inl e"
  using assms
  by (auto simp: vote_def validateVote_def split: option.splits)

text \<open>
  C7. On a \<^verbatim>\<open>single\<close> proposal the validator rejects a numeric vote with the
  option-index error exactly when the number is below 0 or at least the number of
  options; every vote that is not a number is valid; and a vote call with an
  out-of-range number on a stored \<^verbatim>\<open>single\<close> proposal returns an error and leaves the
  votes of every proposal unchanged.
\<close>

theorem single_bounds_check:
  assumes "ptype p = ''single''"
  shows "((validateVote p (JNum n) = Inl InvalidOptionIndex)
            = (n < 0 \<or> n \<ge> of_nat (length (options p))))
       \<and> ((validateVote p (JNum n) = Inr ())
            = (\<not> (n < 0 \<or> n \<ge> of_nat (length (options p)))))
       \<and> (\<not> isNumber v \<longrightarrow> validateVote p v = Inr ())
       \<and> (map_of (proposals s) proposalId = Some p
            \<and> (n < 0 \<or> n \<ge> of_nat (length (options p))) \<longrightarrow>
          (\<exists>e. fst (vote J s agentId proposalId (JNum n) cmt t1 t2) = Inl e)
          \<and> (\<forall>q. map_option votes
                    (map_of (proposals (snd (vote J s agentId proposalId (JNum n) cmt t1 t2))) q)
                  = map_option votes (map_of (proposals s) q)))"
proof (intro conjI impI)
  show "(validateVote p (JNum n) = Inl InvalidOptionIndex)
          = (n < 0 \<or> n \<ge> of_nat (length (options p)))"
    using assms by (simp add: validateVote_def)
  show "(validateVote p (JNum n) = Inr ())
          = (\<not> (n < 0 \<or> n \<ge> of_nat (length (options p))))"
    using assms by (simp add: validateVote_def)
  show "validateVote p v = Inr ()" if "\<not> isNumber v"
    using assms that by (cases v) (simp_all add: validateVote_def)
next
  assume h: "map_of (proposals s) proposalId = Some p
             \<and> (n < 0 \<or> n \<ge> of_nat (length (options p)))"
  then obtain e where e: "fst (vote J s agentId proposalId (JNum n) cmt t1 t2) = Inl e"
    using single_out_of_range_error [of s proposalId p n] assms by blast
  then show "\<exists>e. fst (vote J s agentId proposalId (JNum n) cmt t1 t2) = Inl e"
    by blast
  show "\<forall>q. map_option votes
              (map_of (proposals (snd (vote J s agentId proposalId (JNum n) cmt t1 t2))) q)
            = map_option votes (map_of (proposals s) q)"
    using vote_error_keeps_votes [OF e] by blast
qed

lemma with_proposal_stored:
  "map_of (proposals (with_proposal ty opts)) 1 = Some (example_proposal ty opts)"
  by (simp add: with_proposal_def three_agents_def createProposal_def registerAgent_def
      new_system_def default_config_def num_or_def bool_or_def example_proposal_def
      example_runtime_def Let_def)

theorem single_bounds_check_witness:
  "ptype (example_proposal ''single'' [''x'', ''y'', ''z'']) = ''single''
   \<and> map_of (proposals (with_proposal ''single'' [''x'', ''y'', ''z''])) 1
       = Some (example_proposal ''single'' [''x'', ''y'', ''z''])
   \<and> (5::rat) \<ge> of_nat (length (options (example_proposal ''single'' [''x'', ''y'', ''z''])))
   \<and> \<not> isNumber (JStr ''x'')
   \<and> validateVote (example_proposal ''single'' [''x'', ''y'', ''z'']) (JNum 5)
       = Inl InvalidOptionIndex
   \<and> validateVote (example_proposal ''single'' [''x'', ''y'', ''z'']) (JStr ''x'') = Inr ()
   \<and> (\<exists>e. fst (vote example_runtime (with_proposal ''single'' [''x'', ''y'', ''z'']) ''a'' 1 (JNum 5)
                 [] 1 1) = Inl e)
   \<and> map_option votes
        (map_of (proposals (snd (vote example_runtime (with_proposal ''single'' [''x'', ''y'', ''z''])
                                  ''a'' 1 (JNum 5) [] 1 1))) 1)
       = Some []"
proof -
  have ty: "ptype (example_proposal ''single'' [''x'', ''y'', ''z'']) = ''single''"
    by (simp add: example_proposal_def)
  have n: "(5::rat) \<ge> of_nat (length (options (example_proposal ''single'' [''x'', ''y'', ''z''])))"
    by (simp add: example_proposal_def)
  have vs: "votes (example_proposal ''single'' [''x'', ''y'', ''z'']) = []"
    by (simp add: example_proposal_def)
  show ?thesis
    using single_bounds_check [OF ty, of 5 "JStr ''x''"
        "with_proposal ''single'' [''x'', ''y'', ''z'']" 1 example_runtime "''a''" "[]" 1 1]
      ty n vs with_proposal_stored [of "''single''" "[''x'', ''y'', ''z'']"]
    by simp
qed

section \<open>Late votes\<close>

text \<open>
  C3. A vote by a registered agent on a stored proposal in status \<^verbatim>\<open>voting\<close>, submitted
  after the deadline, fails with the expired-proposal error; the proposal's status
  becomes \<^verbatim>\<open>expired\<close>, and the votes of every proposal, hence every tally, are as
  before.
\<close>

theorem late_vote_expired:
  assumes "map_of (agents s) agentId = Some a"
    and "map_of (proposals s) proposalId = Some p"
    and "status p = Voting"
    and "t_submit > deadline p"
  shows "fst (vote J s agentId proposalId v cmt t_submit t_eval) = Inl ExpiredProposal
       \<and> map_option status
           (map_of (proposals (snd (vote J s agentId proposalId v cmt t_submit t_eval)))
              proposalId) = Some Expired
       \<and> (\<forall>q. map_option votes
                 (map_of (proposals (snd (vote J s agentId proposalId v cmt t_submit t_eval))) q)
               = map_option votes (map_of (proposals s) q))
       \<and> agents (snd (vote J s agentId proposalId v cmt t_submit t_eval)) = agents s
       \<and> decisions (snd (vote J s agentId proposalId v cmt t_submit t_eval)) = decisions s"
  using assms by (simp add: vote_def update_conv')

theorem late_vote_expired_witness:
  "map_of (agents (with_proposal ''yesno'' [])) ''b''
     = Some (fresh_agent ''b'' ''B'' ''member'' (3 / 2) 0)
   \<and> map_of (proposals (with_proposal ''yesno'' [])) 1 = Some (example_proposal ''yesno'' [])
   \<and> status (example_proposal ''yesno'' []) = Voting
   \<and> (300001::rat) > deadline (example_proposal ''yesno'' [])
   \<and> fst (vote example_runtime (with_proposal ''yesno'' []) ''b'' 1 (JStr ''yes'') [] 300001 300001)
       = Inl ExpiredProposal
   \<and> map_option status
       (map_of (proposals (snd (vote example_runtime (with_proposal ''yesno'' []) ''b'' 1 (JStr ''yes'')
                                 [] 300001 300001))) 1) = Some Expired
   \<and> map_option votes
       (map_of (proposals (snd (vote example_runtime (with_proposal ''yesno'' []) ''b'' 1 (JStr ''yes'')
                                 [] 300001 300001))) 1) = Some []"
proof -
  have a: "map_of (agents (with_proposal ''yesno'' [])) ''b''
             = Some (fresh_agent ''b'' ''B'' ''member'' (3 / 2) 0)"
    by (simp add: with_proposal_def three_agents_def createProposal_def registerAgent_def
        new_system_def default_config_def Let_def)
  have p: "map_of (proposals (with_proposal ''yesno'' [])) 1 = Some (example_proposal ''yesno'' [])"
    by (rule with_proposal_stored)
  have st: "status (example_proposal ''yesno'' []) = Voting"
    by (simp add: example_proposal_def)
  have t: "(300001::rat) > deadline (example_proposal ''yesno'' [])"
    by (simp add: example_proposal_def)
  have vs: "votes (example_proposal ''yesno'' []) = []"
    by (simp add: example_proposal_def)
  show ?thesis
    using late_vote_expired [OF a p st t, of example_runtime "JStr ''yes''" "[]" 300001] a p st t vs
    by simp
qed

section \<open>The tally of the consensus evaluator\<close>

lemma agent_weight_effective: "agent_weight s a = effective_weight s a"
  by (simp add: agent_weight_def effective_weight_def split: option.splits)

lemma spec_bucket_step:
  "spec_bucket ty v =
     (if ty = ''yesno'' \<or> ty = ''single'' then
        Some (if is_yes v then Yes else if is_no v then No else Abstain)
      else if ty = ''multi'' then Some (if includes0 v then Yes else No)
      else None)"
  by (cases v) (auto simp: spec_bucket_def is_yes_def is_no_def)

lemma tally_step_fields:
  "yesVotes (tally_step J s ty e t)
     = yesVotes t + (if spec_bucket ty (vote_value (snd e)) = Some Yes then 1 else 0)"
  "noVotes (tally_step J s ty e t)
     = noVotes t + (if spec_bucket ty (vote_value (snd e)) = Some No then 1 else 0)"
  "abstainVotes (tally_step J s ty e t)
     = abstainVotes t + (if spec_bucket ty (vote_value (snd e)) = Some Abstain then 1 else 0)"
  "yesWeight (tally_step J s ty e t)
     = (if spec_bucket ty (vote_value (snd e)) = Some Yes
        then fadd J (yesWeight t) (effective_weight s (fst e)) else yesWeight t)"
  "noWeight (tally_step J s ty e t)
     = (if spec_bucket ty (vote_value (snd e)) = Some No
        then fadd J (noWeight t) (effective_weight s (fst e)) else noWeight t)"
  "abstainWeight (tally_step J s ty e t)
     = (if spec_bucket ty (vote_value (snd e)) = Some Abstain
        then fadd J (abstainWeight t) (effective_weight s (fst e)) else abstainWeight t)"
  by (simp_all add: tally_step_def spec_bucket_step Let_def agent_weight_effective)

text \<open>The loop from any accumulator: each counter grows by the number of votes of its
  bucket, each weight by the weights of its bucket, added one by one.\<close>

lemma tally_fold:
  "yesVotes (fold (tally_step J s ty) vs t) = yesVotes t + length (votes_in ty Yes vs)
   \<and> noVotes (fold (tally_step J s ty) vs t) = noVotes t + length (votes_in ty No vs)
   \<and> abstainVotes (fold (tally_step J s ty) vs t)
       = abstainVotes t + length (votes_in ty Abstain vs)
   \<and> yesWeight (fold (tally_step J s ty) vs t)
       = foldl (fadd J) (yesWeight t)
           (map (\<lambda>e. effective_weight s (fst e)) (votes_in ty Yes vs))
   \<and> noWeight (fold (tally_step J s ty) vs t)
       = foldl (fadd J) (noWeight t)
           (map (\<lambda>e. effective_weight s (fst e)) (votes_in ty No vs))
   \<and> abstainWeight (fold (tally_step J s ty) vs t)
       = foldl (fadd J) (abstainWeight t)
           (map (\<lambda>e. effective_weight s (fst e)) (votes_in ty Abstain vs))"
proof (induction vs arbitrary: t)
  case Nil
  show ?case by (simp add: votes_in_def)
next
  case (Cons e vs)
  note ih = Cons.IH [of "tally_step J s ty e t"]
  show ?case
    by (simp add: ih tally_step_fields votes_in_def)
qed

lemma tally_votes_spec:
  "yesVotes (tally_votes J s p) = length (votes_in (ptype p) Yes (votes p))
   \<and> noVotes (tally_votes J s p) = length (votes_in (ptype p) No (votes p))
   \<and> abstainVotes (tally_votes J s p) = length (votes_in (ptype p) Abstain (votes p))
   \<and> yesWeight (tally_votes J s p) = weight_in J s (ptype p) Yes (votes p)
   \<and> noWeight (tally_votes J s p) = weight_in J s (ptype p) No (votes p)
   \<and> abstainWeight (tally_votes J s p) = weight_in J s (ptype p) Abstain (votes p)"
  using tally_fold [of J s "ptype p" "votes p" tally0]
  by (simp add: tally_votes_def tally0_def weight_in_def float_sum_def)

text \<open>
  C5, as stated: the weight a vote contributes is the voter's registered weight. The
  agents \<open>a\<close> and \<open>b\<close> are registered with weight 0 and both vote yes on a \<^verbatim>\<open>yesno\<close>
  proposal: the registered weights of the yes votes sum to 0, and the tally has the yes
  weight 2.
\<close>

theorem tally_weight_counterexample:
  "map_option weight (map_of (agents zero_weight_agents) ''a'') = Some 0
   \<and> map_option weight (map_of (agents zero_weight_agents) ''b'') = Some 0
   \<and> length (votes_in (ptype two_yes) Yes (votes two_yes)) = 2
   \<and> registered_weight_in zero_weight_agents (ptype two_yes) Yes (votes two_yes) = 0
   \<and> yesWeight (tally_votes example_runtime zero_weight_agents two_yes) = 2"
  by code_simp

text \<open>
  C5, amended. The tally of the consensus evaluator puts a vote of a \<^verbatim>\<open>yesno\<close> or
  \<^verbatim>\<open>single\<close> proposal in the yes bucket exactly when it is \<^verbatim>\<open>"yes"\<close>, \<^verbatim>\<open>true\<close> or \<^verbatim>\<open>0\<close>, in
  the no bucket exactly when it is \<^verbatim>\<open>"no"\<close>, \<^verbatim>\<open>false\<close> or \<^verbatim>\<open>1\<close>, and in the abstain bucket
  otherwise; a vote of a \<^verbatim>\<open>multi\<close> proposal is yes exactly when its array contains 0 and
  no otherwise (\<^const>\<open>spec_bucket\<close>). Each bucket's count is the number of its votes. Each
  vote contributes the registered weight of its voter, or 1 when the voter is not in
  the registry or the registered weight is zero, and each bucket's weight is the sum of
  these contributions, added in the order of the votes with the rounding of the
  language.
\<close>

theorem tally_buckets:
  "yesVotes (tally_votes J s p) = length (votes_in (ptype p) Yes (votes p))
   \<and> noVotes (tally_votes J s p) = length (votes_in (ptype p) No (votes p))
   \<and> abstainVotes (tally_votes J s p) = length (votes_in (ptype p) Abstain (votes p))
   \<and> yesWeight (tally_votes J s p) = weight_in J s (ptype p) Yes (votes p)
   \<and> noWeight (tally_votes J s p) = weight_in J s (ptype p) No (votes p)
   \<and> abstainWeight (tally_votes J s p) = weight_in J s (ptype p) Abstain (votes p)"
  by (rule tally_votes_spec)

theorem tally_buckets_witness:
  "yesVotes (tally_votes example_runtime three_agents mixed_single) = 2
   \<and> noVotes (tally_votes example_runtime three_agents mixed_single) = 2
   \<and> abstainVotes (tally_votes example_runtime three_agents mixed_single) = 1
   \<and> yesWeight (tally_votes example_runtime three_agents mixed_single) = 2
   \<and> noWeight (tally_votes example_runtime three_agents mixed_single) = 5 / 2
   \<and> abstainWeight (tally_votes example_runtime three_agents mixed_single) = 1
   \<and> yesWeight (tally_votes example_runtime zero_weight_agents two_yes) = 2"
proof -
  have c: "length (votes_in (ptype mixed_single) Yes (votes mixed_single)) = 2"
    "length (votes_in (ptype mixed_single) No (votes mixed_single)) = 2"
    "length (votes_in (ptype mixed_single) Abstain (votes mixed_single)) = 1"
    by code_simp+
  have w: "weight_in example_runtime three_agents (ptype mixed_single) Yes (votes mixed_single) = 2"
    "weight_in example_runtime three_agents (ptype mixed_single) No (votes mixed_single) = 5 / 2"
    "weight_in example_runtime three_agents (ptype mixed_single) Abstain (votes mixed_single) = 1"
    "weight_in example_runtime zero_weight_agents (ptype two_yes) Yes (votes two_yes) = 2"
    by code_simp+
  show ?thesis
    using tally_buckets [of example_runtime three_agents mixed_single]
      tally_buckets [of example_runtime zero_weight_agents two_yes] c w
    by simp
qed

section \<open>Reaching consensus\<close>

lemma checkConsensus_status:
  assumes "\<not> of_nat (length (votes p)) < minAgents (sys_config s)"
  shows "status (fst (snd (checkConsensus J s p now)))
           = (let t = tally_votes J s p
              in if ratio_reached J (yesWeight t)
                      (fadd J (fadd J (yesWeight t) (noWeight t)) (abstainWeight t))
                      (length (agents s)) (requiredConsensus p)
                 then Accepted
                 else if now > deadline p then Rejected else status p)"
  using assms by (simp add: checkConsensus_def Let_def)

text \<open>
  C1, as stated: with enough votes, a \<^verbatim>\<open>yesno\<close> proposal in status \<^verbatim>\<open>voting\<close> is accepted
  if and only if the sum of the weights of the yes votes divided by the size of the
  registry is at least \<^verbatim>\<open>requiredConsensus\<close>. With \<open>a\<close> and \<open>b\<close> registered with weight 0
  and \<open>c\<close> with weight 1, the yes votes of \<open>a\<close> and \<open>b\<close> have weight 0 of 3, below the
  threshold 0.6, and the proposal is accepted. With \<open>a\<close> registered with weight 5 and
  \<open>b\<close> with weight -10, the yes vote of \<open>a\<close> has weight 5 of 2, above the threshold, and
  after the no vote of \<open>b\<close> the proposal is not accepted.
\<close>

theorem registered_ratio_counterexample:
  "ptype two_yes = ''yesno'' \<and> status two_yes = Voting
   \<and> \<not> of_nat (length (votes two_yes)) < minAgents (sys_config zero_weight_agents)
   \<and> status (fst (snd (checkConsensus example_runtime zero_weight_agents two_yes 5))) = Accepted
   \<and> \<not> requiredConsensus two_yes
         \<le> registered_weight_in zero_weight_agents ''yesno'' Yes (votes two_yes)
             / of_nat (length (agents zero_weight_agents))
   \<and> ptype yes_and_no = ''yesno'' \<and> status yes_and_no = Voting
   \<and> \<not> of_nat (length (votes yes_and_no)) < minAgents (sys_config opposed_agents)
   \<and> status (fst (snd (checkConsensus example_runtime opposed_agents yes_and_no 5))) = Voting
   \<and> requiredConsensus yes_and_no
         \<le> registered_weight_in opposed_agents ''yesno'' Yes (votes yes_and_no)
             / of_nat (length (agents opposed_agents))"
  by code_simp

text \<open>
  C1, amended. For a \<^verbatim>\<open>yesno\<close> proposal in status \<^verbatim>\<open>voting\<close>: when the number of votes is
  at least \<^verbatim>\<open>minAgents\<close>, consensus evaluation leaves the proposal \<^verbatim>\<open>accepted\<close> if and only
  if \<^const>\<open>amended_accept\<close> holds of the weights of the yes, no and abstain votes, where
  a vote weighs the registered weight of its voter, or 1 when the voter is not in the
  registry or the registered weight is zero, and weights are added and divided with
  the rounding of the language: the total weight is positive and the yes weight
  divided by the size of the registry is at least \<^verbatim>\<open>requiredConsensus\<close>, or the total
  weight is not positive and \<^verbatim>\<open>requiredConsensus\<close> is at most 0. When the number of votes
  is below \<^verbatim>\<open>minAgents\<close>, the evaluation reports insufficient votes and changes neither
  the proposal nor the system.
\<close>

theorem yesno_accepted_iff:
  assumes "ptype p = ''yesno''"
    and "status p = Voting"
  shows "(\<not> of_nat (length (votes p)) < minAgents (sys_config s) \<longrightarrow>
            (status (fst (snd (checkConsensus J s p now))) = Accepted)
              = amended_accept J (weight_in J s ''yesno'' Yes (votes p))
                  (weight_in J s ''yesno'' No (votes p))
                  (weight_in J s ''yesno'' Abstain (votes p))
                  (length (agents s)) (requiredConsensus p))
       \<and> (of_nat (length (votes p)) < minAgents (sys_config s) \<longrightarrow>
            checkConsensus J s p now = (InsufficientVotes, p, s))"
proof (intro conjI impI)
  assume enough: "\<not> of_nat (length (votes p)) < minAgents (sys_config s)"
  note tb = tally_votes_spec [of J s p]
  have "ratio_reached J (yesWeight (tally_votes J s p))
          (fadd J (fadd J (yesWeight (tally_votes J s p)) (noWeight (tally_votes J s p)))
             (abstainWeight (tally_votes J s p)))
          (length (agents s)) (requiredConsensus p)
        = amended_accept J (weight_in J s ''yesno'' Yes (votes p))
            (weight_in J s ''yesno'' No (votes p))
            (weight_in J s ''yesno'' Abstain (votes p))
            (length (agents s)) (requiredConsensus p)"
    by (simp add: ratio_reached_def amended_accept_def tb assms(1))
  then show "(status (fst (snd (checkConsensus J s p now))) = Accepted)
              = amended_accept J (weight_in J s ''yesno'' Yes (votes p))
                  (weight_in J s ''yesno'' No (votes p))
                  (weight_in J s ''yesno'' Abstain (votes p))
                  (length (agents s)) (requiredConsensus p)"
    using assms(2) by (simp add: checkConsensus_status [OF enough] Let_def)
next
  assume "of_nat (length (votes p)) < minAgents (sys_config s)"
  then show "checkConsensus J s p now = (InsufficientVotes, p, s)"
    by (simp add: checkConsensus_def Let_def)
qed

theorem yesno_accepted_iff_witness:
  "ptype two_yes = ''yesno'' \<and> status two_yes = Voting
   \<and> \<not> of_nat (length (votes two_yes)) < minAgents (sys_config three_agents)
   \<and> status (fst (snd (checkConsensus example_runtime three_agents two_yes 5))) = Accepted
   \<and> amended_accept example_runtime
       (weight_in example_runtime three_agents ''yesno'' Yes (votes two_yes))
       (weight_in example_runtime three_agents ''yesno'' No (votes two_yes))
       (weight_in example_runtime three_agents ''yesno'' Abstain (votes two_yes))
       (length (agents three_agents)) (requiredConsensus two_yes)
   \<and> status (fst (snd (checkConsensus example_runtime opposed_agents yes_and_no 5))) \<noteq> Accepted
   \<and> \<not> amended_accept example_runtime
       (weight_in example_runtime opposed_agents ''yesno'' Yes (votes yes_and_no))
       (weight_in example_runtime opposed_agents ''yesno'' No (votes yes_and_no))
       (weight_in example_runtime opposed_agents ''yesno'' Abstain (votes yes_and_no))
       (length (agents opposed_agents)) (requiredConsensus yes_and_no)
   \<and> ptype one_yes = ''yesno'' \<and> status one_yes = Voting
   \<and> of_nat (length (votes one_yes)) < minAgents (sys_config three_agents)
   \<and> checkConsensus example_runtime three_agents one_yes 5
       = (InsufficientVotes, one_yes, three_agents)"
proof -
  have a: "ptype two_yes = ''yesno''" "status two_yes = Voting"
    by code_simp+
  have b: "ptype one_yes = ''yesno''" "status one_yes = Voting"
    by code_simp+
  have c: "ptype yes_and_no = ''yesno''" "status yes_and_no = Voting"
    by code_simp+
  have e: "\<not> of_nat (length (votes two_yes)) < minAgents (sys_config three_agents)"
    "\<not> of_nat (length (votes yes_and_no)) < minAgents (sys_config opposed_agents)"
    by code_simp+
  have f: "of_nat (length (votes one_yes)) < minAgents (sys_config three_agents)"
    by code_simp
  have r: "amended_accept example_runtime
       (weight_in example_runtime three_agents ''yesno'' Yes (votes two_yes))
       (weight_in example_runtime three_agents ''yesno'' No (votes two_yes))
       (weight_in example_runtime three_agents ''yesno'' Abstain (votes two_yes))
       (length (agents three_agents)) (requiredConsensus two_yes)"
    by code_simp
  have n: "\<not> amended_accept example_runtime
       (weight_in example_runtime opposed_agents ''yesno'' Yes (votes yes_and_no))
       (weight_in example_runtime opposed_agents ''yesno'' No (votes yes_and_no))
       (weight_in example_runtime opposed_agents ''yesno'' Abstain (votes yes_and_no))
       (length (agents opposed_agents)) (requiredConsensus yes_and_no)"
    by code_simp
  show ?thesis
    using yesno_accepted_iff [OF a, of three_agents example_runtime 5]
      yesno_accepted_iff [OF b, of three_agents example_runtime 5]
      yesno_accepted_iff [OF c, of opposed_agents example_runtime 5]
      a b e f r n
    by simp
qed

section \<open>The weighted sums of countVotes\<close>

















text \<open>Under a name inherited from \<^verbatim>\<open>Object.prototype\<close> no sum is formed: the first vote
  leaves a string, and for \<^verbatim>\<open>__proto__\<close> nothing. So for the votes \<^verbatim>\<open>'toString'\<close>,
  \<^verbatim>\<open>'__proto__'\<close> and \<^verbatim>\<open>'toString'\<close> on a \<^verbatim>\<open>single\<close> proposal, which the validator
  accepts.\<close>

lemma bump_inherited:
  assumes "k \<in> set object_prototype_names" and "m k = None"
  shows "bump J m k d k = (if k = ''__proto__'' then None else Some PString)"
  using assms by (auto simp: bump_def assign_def)

lemma inherited_names_not_summed:
  "validateVote named_single (JStr ''toString'') = Inr ()
   \<and> validateVote named_single (JStr ''__proto__'') = Inr ()
   \<and> weightedCounts (countVotes example_runtime three_agents named_single) ''toString''
       = Some PString
   \<and> weightedCounts (countVotes example_runtime three_agents named_single) ''__proto__'' = None
   \<and> counts (countVotes example_runtime three_agents named_single) ''toString'' = Some PString"
  by code_simp




section \<open>Votes and the registry\<close>

lemma set_update_subset: "set (AList.update k v al) \<subseteq> insert (k, v) (set al)"
  by (induction al) auto

lemma map_fst_map_entry: "map fst (AList.map_entry k f xs) = map fst xs"
  by (induction xs) auto

lemma credit_fold_keys: "map fst (fold (credit_step ty) vs ags) = map fst ags"
  by (induction vs arbitrary: ags) (simp_all add: credit_step_def map_fst_map_entry)

lemma finalizeDecision_frame:
  "map fst (agents (snd (finalizeDecision J s p now))) = map fst (agents s)"
  "proposals (snd (finalizeDecision J s p now)) = proposals s"
  by (simp_all add: finalizeDecision_def Let_def credit_fold_keys)

lemma checkConsensus_result:
  "checkConsensus J s p now = (InsufficientVotes, p, s)
   \<or> (\<exists>st. checkConsensus J s p now = (Stats st, p, s))
   \<or> (\<exists>st x. checkConsensus J s p now
                 = (Stats st, p\<lparr>status := x\<rparr>, snd (finalizeDecision J s (p\<lparr>status := x\<rparr>) now)))"
  unfolding checkConsensus_def Let_def by (simp split: if_splits) blast

lemma checkConsensus_frame:
  "votes (fst (snd (checkConsensus J s p now))) = votes p"
  "map fst (agents (snd (snd (checkConsensus J s p now)))) = map fst (agents s)"
  "proposals (snd (snd (checkConsensus J s p now))) = proposals s"
  using checkConsensus_result [of J s p now]
  by (auto simp: finalizeDecision_frame)

lemma registry_inv_update:
  assumes "registry_inv s"
    and "map fst (agents s') = map fst (agents s)"
    and "proposals s' = AList.update k q (proposals s)"
    and "distinct (map fst (votes q))"
    and "fst ` set (votes q) \<subseteq> fst ` set (agents s)"
  shows "registry_inv s'"
proof -
  have "set (map fst (agents s')) = set (map fst (agents s))"
    using assms(2) by simp
  then have keys: "fst ` set (agents s') = fst ` set (agents s)"
    by simp
  have old: "distinct (map fst (votes (snd e))) \<and> fst ` set (votes (snd e)) \<subseteq> fst ` set (agents s)"
    if "e \<in> set (proposals s)" for e
    using assms(1) that by (simp add: registry_inv_def)
  have each: "distinct (map fst (votes (snd e))) \<and> fst ` set (votes (snd e)) \<subseteq> fst ` set (agents s')"
    if "e \<in> set (proposals s')" for e
  proof -
    have "e \<in> set (AList.update k q (proposals s))"
      using that by (simp add: assms(3))
    then have "e \<in> insert (k, q) (set (proposals s))"
      by (rule subsetD [OF set_update_subset])
    then consider "e = (k, q)" | "e \<in> set (proposals s)"
      by blast
    then show ?thesis
    proof cases
      case 1
      then show ?thesis using assms(4,5) by (simp add: keys)
    next
      case 2
      then show ?thesis using old [of e] by (simp add: keys)
    qed
  qed
  have "distinct (map fst (agents s'))"
    using assms(1,2) by (simp add: registry_inv_def)
  then show ?thesis
    using each by (simp add: registry_inv_def)
qed

lemma stored_proposal_inv:
  assumes "registry_inv s" and "map_of (proposals s) k = Some p"
  shows "distinct (map fst (votes p))" and "fst ` set (votes p) \<subseteq> fst ` set (agents s)"
proof -
  have "(k, p) \<in> set (proposals s)"
    using assms(2) by (rule map_of_SomeD)
  then show "distinct (map fst (votes p))" and "fst ` set (votes p) \<subseteq> fst ` set (agents s)"
    using assms(1) by (force simp: registry_inv_def)+
qed

lemma registry_inv_new: "registry_inv (new_system c)"
  by (simp add: registry_inv_def new_system_def)

lemma registry_inv_register:
  assumes "registry_inv s"
  shows "registry_inv (snd (registerAgent s agentId agentName r w now))"
  using assms
  by (auto simp: registry_inv_def registerAgent_def Let_def distinct_update dom_update)

lemma registry_inv_create:
  assumes "registry_inv s"
  shows "registry_inv (snd (createProposal J s agentId ttl descr opts ty now))"
proof (cases "map_of (agents s) agentId")
  case None
  then show ?thesis using assms by (simp add: createProposal_def)
next
  case (Some a)
  define q where "q = \<lparr> proposal_id = proposalIdCounter s, title = ttl, description = descr,
      options = opts, ptype = ty, creator = agentId, status = Voting, createdAt = now,
      deadline = fadd J now (voteDeadline (sys_config s)), votes = [], comments = [],
      requiredConsensus = consensusThreshold (sys_config s) \<rparr>"
  show ?thesis
  proof (rule registry_inv_update [OF assms, of _ "proposalIdCounter s" q])
    show "proposals (snd (createProposal J s agentId ttl descr opts ty now))
            = AList.update (proposalIdCounter s) q (proposals s)"
      by (simp add: createProposal_def Let_def q_def Some)
    show "map fst (agents (snd (createProposal J s agentId ttl descr opts ty now)))
            = map fst (agents s)"
      by (simp add: createProposal_def Let_def Some)
  qed (simp_all add: q_def)
qed

lemma registry_inv_comment:
  assumes "registry_inv s"
  shows "registry_inv (snd (addComment s agentId proposalId cmt now))"
proof (cases "map_of (agents s) agentId")
  case None
  then show ?thesis using assms by (simp add: addComment_def)
next
  case (Some a)
  show ?thesis
  proof (cases "map_of (proposals s) proposalId")
    case None
    then show ?thesis using assms Some by (simp add: addComment_def)
  next
    case p: (Some p)
    define c where "c = \<lparr> c_agentId = agentId, c_agentName = getAgentName s agentId,
                           c_comment = cmt, c_timestamp = now \<rparr>"
    show ?thesis
    proof (rule registry_inv_update [OF assms, of _ proposalId "p\<lparr>comments := comments p @ [c]\<rparr>"])
      show "proposals (snd (addComment s agentId proposalId cmt now))
              = AList.update proposalId (p\<lparr>comments := comments p @ [c]\<rparr>) (proposals s)"
        by (simp add: addComment_def Let_def c_def Some p)
      show "map fst (agents (snd (addComment s agentId proposalId cmt now))) = map fst (agents s)"
        by (simp add: addComment_def Let_def Some p)
    qed (use stored_proposal_inv [OF assms p] in simp_all)
  qed
qed

lemma registry_inv_suggest:
  assumes "registry_inv s"
  shows "registry_inv (snd (getVoteSuggestion J s proposalId now))"
proof (cases "map_of (proposals s) proposalId")
  case None
  then show ?thesis using assms by (simp add: getVoteSuggestion_def)
next
  case (Some p)
  obtain r p' s' where cc: "checkConsensus J s p now = (r, p', s')"
    by (cases "checkConsensus J s p now") auto
  have fr: "votes p' = votes p" "map fst (agents s') = map fst (agents s)"
    "proposals s' = proposals s"
    using checkConsensus_frame [of J s p now] by (simp_all add: cc)
  show ?thesis
  proof (rule registry_inv_update [OF assms, of _ proposalId p'])
    show "proposals (snd (getVoteSuggestion J s proposalId now))
            = AList.update proposalId p' (proposals s)"
      by (simp add: getVoteSuggestion_def Some cc fr)
    show "map fst (agents (snd (getVoteSuggestion J s proposalId now))) = map fst (agents s)"
      by (simp add: getVoteSuggestion_def Some cc fr)
  qed (use stored_proposal_inv [OF assms Some] in \<open>simp_all add: fr\<close>)
qed

lemma registry_inv_vote:
  assumes "registry_inv s"
  shows "registry_inv (snd (vote J s agentId proposalId v cmt t_submit t_eval))"
proof (cases "map_of (agents s) agentId")
  case None
  then show ?thesis using assms by (simp add: vote_def)
next
  case (Some a)
  show ?thesis
  proof (cases "map_of (proposals s) proposalId")
    case None
    then show ?thesis using assms Some by (simp add: vote_def)
  next
    case p: (Some p)
    note pinv = stored_proposal_inv [OF assms p]
    consider (closed) "status p \<noteq> Voting"
      | (late) "status p = Voting" "t_submit > deadline p"
      | (invalid) e where "status p = Voting" "\<not> t_submit > deadline p" "validateVote p v = Inl e"
      | (recorded) "status p = Voting" "\<not> t_submit > deadline p" "validateVote p v = Inr ()"
      by (cases "validateVote p v") auto
    then show ?thesis
    proof cases
      case closed
      then show ?thesis using assms Some p by (simp add: vote_def)
    next
      case late
      show ?thesis
        by (rule registry_inv_update [OF assms, of _ proposalId "p\<lparr>status := Expired\<rparr>"])
           (use late pinv in \<open>simp_all add: vote_def Some p\<close>)
    next
      case invalid
      then show ?thesis using assms Some p by (simp add: vote_def)
    next
      case recorded
      define vr where "vr = \<lparr> vote_value = v, vote_comment = cmt, timestamp = t_submit \<rparr>"
      define p1 where "p1 = p\<lparr>votes := AList.update agentId vr (votes p)\<rparr>"
      define s1 where "s1 = s\<lparr>vote_log := AList.update (proposalId, agentId) vr (vote_log s)\<rparr>"
      obtain r p2 s2 where cc: "checkConsensus J s1 p1 t_eval = (r, p2, s2)"
        by (cases "checkConsensus J s1 p1 t_eval") auto
      have fr: "votes p2 = votes p1" "map fst (agents s2) = map fst (agents s1)"
        "proposals s2 = proposals s1"
        using checkConsensus_frame [of J s1 p1 t_eval] by (simp_all add: cc)
      have res: "snd (vote J s agentId proposalId v cmt t_submit t_eval)
                   = s2\<lparr>proposals := AList.update proposalId p2 (proposals s2)\<rparr>"
        using recorded cc
        by (simp add: vote_def Some p Let_def vr_def [symmetric] p1_def [symmetric]
            s1_def [symmetric])
      have "(agentId, a) \<in> set (agents s)"
        using Some by (rule map_of_SomeD)
      then have voter: "agentId \<in> fst ` set (agents s)"
        by force
      show ?thesis
      proof (rule registry_inv_update [OF assms, of _ proposalId p2])
        show "proposals (snd (vote J s agentId proposalId v cmt t_submit t_eval))
                = AList.update proposalId p2 (proposals s)"
          by (simp add: res fr s1_def)
        show "map fst (agents (snd (vote J s agentId proposalId v cmt t_submit t_eval)))
                = map fst (agents s)"
          by (simp add: res fr s1_def)
        show "distinct (map fst (votes p2))"
          using pinv(1) by (simp add: fr p1_def distinct_update)
        show "fst ` set (votes p2) \<subseteq> fst ` set (agents s)"
          using pinv(2) voter by (simp add: fr p1_def dom_update)
      qed
    qed
  qed
qed

lemma registry_inv_finalize:
  assumes "registry_inv s"
  shows "registry_inv (snd (finalizeDecision J s p now))"
proof -
  have "set (map fst (agents (snd (finalizeDecision J s p now)))) = set (map fst (agents s))"
    by (simp only: finalizeDecision_frame)
  then have "fst ` set (agents (snd (finalizeDecision J s p now))) = fst ` set (agents s)"
    by simp
  then show ?thesis
    using assms by (simp add: registry_inv_def finalizeDecision_frame)
qed

lemma reachable_registry_inv:
  assumes "reachable J s"
  shows "registry_inv s"
  using assms
  by (induction rule: reachable.induct)
     (simp_all add: registry_inv_new registry_inv_register registry_inv_create
        registry_inv_comment registry_inv_vote registry_inv_suggest registry_inv_finalize)

lemma registry_inv_size:
  assumes "registry_inv s" and "e \<in> set (proposals s)"
  shows "length (votes (snd e)) \<le> length (agents s)"
proof -
  have d: "distinct (map fst (votes (snd e)))" "distinct (map fst (agents s))"
    and sub: "fst ` set (votes (snd e)) \<subseteq> fst ` set (agents s)"
    using assms by (simp_all add: registry_inv_def)
  have "length (votes (snd e)) = card (set (map fst (votes (snd e))))"
    using distinct_card [OF d(1)] by simp
  also have "\<dots> \<le> card (set (map fst (agents s)))"
    using sub by (simp add: card_mono)
  also have "\<dots> = length (agents s)"
    using distinct_card [OF d(2)] by simp
  finally show ?thesis .
qed

text \<open>
  C8. In every state reachable from a freshly constructed system by registrations,
  proposal creations, comments, votes, re-evaluations of consensus and finalizations,
  the votes map of every stored proposal has at most as many entries as the agent
  registry.
\<close>

theorem votes_never_exceed_registry:
  assumes "reachable J s"
  shows "votes_within_registry s"
  using registry_inv_size [OF reachable_registry_inv [OF assms]]
  by (simp add: votes_within_registry_def list_all_iff)

theorem votes_never_exceed_registry_witness:
  "reachable example_runtime (snd (vote example_runtime (with_proposal ''yesno'' []) ''a'' 1 (JStr ''yes'') [] 1 1))
   \<and> votes_within_registry
        (snd (vote example_runtime (with_proposal ''yesno'' []) ''a'' 1 (JStr ''yes'') [] 1 1))"
proof -
  have r: "reachable example_runtime
             (snd (vote example_runtime (with_proposal ''yesno'' []) ''a'' 1 (JStr ''yes'') [] 1 1))"
    unfolding with_proposal_def three_agents_def by (intro reachable.intros)
  show ?thesis
    using votes_never_exceed_registry [OF r] r by simp
qed

section \<open>Re-evaluating a decided proposal\<close>

lemma readme_run_reachable: "reachable example_runtime re_evaluated"
  unfolding re_evaluated_def accepted_once_def with_proposal_def three_agents_def
  by (intro reachable.intros)

lemma grown_run_reachable: "reachable example_runtime re_evaluated_late"
  unfolding re_evaluated_late_def grown_registry_def accepted_once_def with_proposal_def
    three_agents_def
  by (intro reachable.intros)

text \<open>
  C2. Finalization is not guarded: in the run of the README (three agents, a \<^verbatim>\<open>single\<close>
  proposal, votes 0, 1, 0) the third vote accepts the proposal and records one decision;
  evaluating consensus once more on the same proposal records a second decision for it
  and increments the counters of every voter a second time.
\<close>

theorem finalization_repeats:
  "reachable example_runtime re_evaluated
   \<and> map_option status (map_of (proposals accepted_once) 1) = Some Accepted
   \<and> map (d_proposalId \<circ> snd) (decisions accepted_once) = [1]
   \<and> length (consensusHistory accepted_once) = 1
   \<and> map (participatedDecisions \<circ> snd) (agents accepted_once) = [1, 1, 1]
   \<and> map (d_proposalId \<circ> snd) (decisions re_evaluated) = [1, 1]
   \<and> length (consensusHistory re_evaluated) = 2
   \<and> map (participatedDecisions \<circ> snd) (agents re_evaluated) = [2, 2, 2]
   \<and> map (agreedDecisions \<circ> snd) (agents re_evaluated) = [2, 0, 2]
   \<and> map (disagreedDecisions \<circ> snd) (agents re_evaluated) = [0, 2, 0]"
proof -
  have "map_option status (map_of (proposals accepted_once) 1) = Some Accepted"
    and "map (d_proposalId \<circ> snd) (decisions accepted_once) = [1]"
    and "length (consensusHistory accepted_once) = 1"
    and "map (participatedDecisions \<circ> snd) (agents accepted_once) = [1, 1, 1]"
    and "map (d_proposalId \<circ> snd) (decisions re_evaluated) = [1, 1]"
    and "length (consensusHistory re_evaluated) = 2"
    and "map (participatedDecisions \<circ> snd) (agents re_evaluated) = [2, 2, 2]"
    and "map (agreedDecisions \<circ> snd) (agents re_evaluated) = [2, 0, 2]"
    and "map (disagreedDecisions \<circ> snd) (agents re_evaluated) = [0, 2, 0]"
    by code_simp+
  then show ?thesis
    using readme_run_reachable by simp
qed

text \<open>
  C4. \<^verbatim>\<open>accepted\<close> is not terminal under re-evaluation: after two more agents register,
  the yes weight 2 of the accepted proposal is below 0.6 of the registry of five, and a
  consensus evaluation after the deadline sets the proposal's status to \<^verbatim>\<open>rejected\<close>.
\<close>

theorem accepted_then_rejected:
  "reachable example_runtime re_evaluated_late
   \<and> map_option status (map_of (proposals accepted_once) 1) = Some Accepted
   \<and> map_option status (map_of (proposals grown_registry) 1) = Some Accepted
   \<and> map_option status (map_of (proposals re_evaluated_late) 1) = Some Rejected
   \<and> map (d_result \<circ> snd) (decisions re_evaluated_late) = [Accepted, Rejected]"
proof -
  have "map_option status (map_of (proposals accepted_once) 1) = Some Accepted"
    and "map_option status (map_of (proposals grown_registry) 1) = Some Accepted"
    and "map_option status (map_of (proposals re_evaluated_late) 1) = Some Rejected"
    and "map (d_result \<circ> snd) (decisions re_evaluated_late) = [Accepted, Rejected]"
    by code_simp+
  then show ?thesis
    using grown_run_reachable by simp
qed

end
